theory Spec2Isabelle
  imports Main "HOL-Library.Sublist"
begin

section \<open>The match scheduler of \<open>competitive_sudoku/experiment.py\<close>\<close>

text \<open>
  The development embeds \<open>simulate_game\<close> (experiment.py, lines 37-130). The two agents
  and the oracle executable are black boxes of the source; they are parameters of every
  definition below. An agent is given the index of the loop iteration and the game state it
  is started on, and yields the triple that the scheduler reads from \<open>player.best_move\<close>
  after the deadline (lines 68-80). The oracle is given the index of the loop iteration,
  the board whose text is sent (line 89), the flat index \<open>rc2f(i, j)\<close> and the value of the
  \<open>--move\<close> option (line 90), and yields the text that \<open>solve_sudoku\<close> returns (line 91).
  The iteration index lets an agent or the oracle answer differently when asked twice.
  An exception while the agent's process is started or stopped is caught (lines 78-79) and
  the slot is read all the same, so the agent's triple covers that case too. The process,
  the deadline and the lock of lines 55-77 have no counterpart here.
\<close>

subsection \<open>Errors\<close>

datatype error = RuntimeError | ValueError | IndexError

subsection \<open>Board, moves and game state\<close>

text \<open>
  Modelled from the spec: the classes \<open>SudokuBoard\<close>, \<open>Move\<close>, \<open>TabooMove\<close> and
  \<open>GameState\<close> are imported from \<open>competitive_sudoku.sudoku\<close>, which is not among the
  sources. A board is a grid of fixed dimension whose cells are empty or hold a value, with
  a coordinate-to-flat-index conversion; a move is a (row, column, value) triple with
  structural equality; a game state aggregates the initial board, the current board, the
  taboo moves, the moves and the pair of scores.
\<close>

record SudokuBoard =
  board_N :: int
  squares :: "int list"

text \<open>Modelled from the spec: the constant \<open>SudokuBoard.empty\<close>, the content of an empty cell.\<close>

definition SudokuBoard_empty :: int where
  "SudokuBoard_empty = 0"

text \<open>Modelled from the spec: \<open>SudokuBoard.rc2f\<close>, the coordinate-to-flat-index conversion.\<close>

definition rc2f :: "SudokuBoard \<Rightarrow> int \<Rightarrow> int \<Rightarrow> int" where
  "rc2f b i j = board_N b * i + j"

text \<open>
  Modelled from the spec: \<open>SudokuBoard.put\<close>, which places a value in a cell. The cell is
  an element of the Python list \<open>squares\<close>: an index from \<open>-len\<close> up to \<open>-1\<close> counts from
  the end, and an index outside \<open>-len .. len - 1\<close> raises \<open>IndexError\<close>.
\<close>

definition put :: "SudokuBoard \<Rightarrow> int \<Rightarrow> int \<Rightarrow> int \<Rightarrow> error + SudokuBoard" where
  "put b i j v =
     (let k = rc2f b i j; n = int (length (squares b))
      in if 0 \<le> k \<and> k < n then Inr (b\<lparr>squares := (squares b)[nat k := v]\<rparr>)
         else if - n \<le> k \<and> k < 0 then Inr (b\<lparr>squares := (squares b)[nat (n + k) := v]\<rparr>)
         else Inl IndexError)"

datatype Move = Move int int int | TabooMove int int int

text \<open>
  Modelled from the spec: the equality of moves compares the (row, column, value) triples;
  a \<open>TabooMove\<close> is a \<open>Move\<close>, and the class of the object plays no part.
\<close>

fun move_triple :: "Move \<Rightarrow> int \<times> int \<times> int" where
  "move_triple (Move i j v) = (i, j, v)"
| "move_triple (TabooMove i j v) = (i, j, v)"

definition move_eq :: "Move \<Rightarrow> Move \<Rightarrow> bool" where
  "move_eq a b = (move_triple a = move_triple b)"

text \<open>Python's \<open>x in xs\<close> on a list: some element equals \<open>x\<close>.\<close>

definition move_in :: "Move \<Rightarrow> Move list \<Rightarrow> bool" where
  "move_in x xs = list_ex (move_eq x) xs"

record GameState =
  initial_board :: SudokuBoard
  board :: SudokuBoard
  taboo_moves :: "Move list"
  moves :: "Move list"
  scores :: "int list"

subsection \<open>Reading the oracle's text\<close>

text \<open>
  Python's \<open>s in output\<close> on strings is the test for a contiguous occurrence, which is
  \<^const>\<open>sublist\<close>. Characters are bytes here: the digits that \<open>\d\<close> and \<open>int\<close> accept
  are the ASCII digits, and the bound that recent Python versions put on the number of
  digits \<open>int\<close> converts is left out.
\<close>

definition is_digit :: "char \<Rightarrow> bool" where
  "is_digit c = (c \<in> set ''0123456789'')"

definition is_score_char :: "char \<Rightarrow> bool" where
  "is_score_char c = (c = CHR ''-'' \<or> is_digit c)"

text \<open>
  \<open>re.search(r'The score is ([-\d]+)', output)\<close> (line 106): the leftmost position where
  the literal text is followed by at least one character of the class; group 1 is the
  longest run of such characters there.
\<close>

fun re_search_score :: "string \<Rightarrow> string option" where
  "re_search_score [] = None"
| "re_search_score (c # cs) =
     (if prefix ''The score is '' (c # cs)
         \<and> takeWhile is_score_char (drop 13 (c # cs)) \<noteq> []
      then Some (takeWhile is_score_char (drop 13 (c # cs)))
      else re_search_score cs)"

definition digits_value :: "string \<Rightarrow> nat" where
  "digits_value ds = foldl (\<lambda>a c. 10 * a + (of_char c - 48)) 0 ds"

text \<open>
  \<open>int(s)\<close> (line 108) on a string of minus signs and digits: an optional minus sign and
  then at least one digit, anything else raises \<open>ValueError\<close>.
\<close>

definition py_int :: "string \<Rightarrow> error + int" where
  "py_int s =
     (let neg = (s \<noteq> [] \<and> hd s = CHR ''-'');
          ds = (if neg then tl s else s)
      in if ds \<noteq> [] \<and> list_all is_digit ds
         then Inr (if neg then - int (digits_value ds) else int (digits_value ds))
         else Inl ValueError)"

subsection \<open>One iteration of the turn loop\<close>

type_synonym agent = "nat \<Rightarrow> GameState \<Rightarrow> int \<times> int \<times> int"
type_synonym query = "SudokuBoard \<times> int \<times> int"
type_synonym sudoku_oracle = "nat \<Rightarrow> SudokuBoard \<Rightarrow> int \<Rightarrow> int \<Rightarrow> string"

record loop_state =
  game_state :: GameState
  move_number :: nat

text \<open>
  The body of the loop either falls through to the next test of the loop condition, or
  leaves \<open>simulate_game\<close> through one of the \<open>return\<close> statements of lines 88, 95, 99 and
  117, or raises.
\<close>

datatype outcome =
    Continue loop_state
  | Return "int list" nat
  | Raise error

text \<open>Line 66: the active player is read off the parity of \<open>len(game_state.moves)\<close>.\<close>

definition player_number :: "GameState \<Rightarrow> nat" where
  "player_number gs = (if length (moves gs) mod 2 = 0 then 1 else 2)"

text \<open>Line 118: \<open>scores[player_number - 1] = scores[player_number - 1] + player_score\<close>.\<close>

definition add_score :: "nat \<Rightarrow> int \<Rightarrow> GameState \<Rightarrow> GameState" where
  "add_score pn player_score gs =
     gs\<lparr>scores := (scores gs)[pn - 1 := scores gs ! (pn - 1) + player_score]\<rparr>"

text \<open>Lines 100-104: the branch of \<open>'has no solution'\<close>.\<close>

definition record_taboo :: "string \<Rightarrow> int \<Rightarrow> int \<Rightarrow> int \<Rightarrow> GameState \<Rightarrow> GameState" where
  "record_taboo output i j v gs =
     (if sublist ''has no solution'' output
      then gs\<lparr>moves := moves gs @ [TabooMove i j v],
              taboo_moves := taboo_moves gs @ [TabooMove i j v]\<rparr>
      else gs)"

text \<open>
  Lines 92-113 and 118: what the scheduler does with the oracle's text. The first argument
  is the player number fixed at line 66, before any list is appended to.
\<close>

definition apply_output ::
  "nat \<Rightarrow> string \<Rightarrow> int \<Rightarrow> int \<Rightarrow> int \<Rightarrow> loop_state \<Rightarrow> outcome" where
  "apply_output pn output i j v st =
     (let gs = game_state st in
      if sublist ''Invalid move'' output then Return (scores gs) (3 - pn)
      else if sublist ''Illegal move'' output then Return (scores gs) (3 - pn)
      else
        let gs1 = record_taboo output i j v gs in
        if sublist ''The score is'' output then
          (case re_search_score output of
             None \<Rightarrow> Raise RuntimeError
           | Some g \<Rightarrow>
               (case py_int g of
                  Inl e \<Rightarrow> Raise e
                | Inr player_score \<Rightarrow>
                    (case put (board gs1) i j v of
                       Inl e \<Rightarrow> Raise e
                     | Inr b \<Rightarrow>
                         Continue
                           \<lparr>game_state =
                              add_score pn player_score
                                (gs1\<lparr>board := b, moves := moves gs1 @ [Move i j v]\<rparr>),
                            move_number = move_number st + 1\<rparr>)))
        else Continue \<lparr>game_state = add_score pn 0 gs1, move_number = move_number st\<rparr>)"

text \<open>
  Lines 66-81: the triple read from the slot of the active player, player 1 when
  \<open>len(game_state.moves)\<close> is even and player 2 otherwise.
\<close>

definition best_move :: "agent \<Rightarrow> agent \<Rightarrow> nat \<Rightarrow> GameState \<Rightarrow> int \<times> int \<times> int" where
  "best_move player1 player2 k gs =
     (if length (moves gs) mod 2 = 0 then player1 else player2) k gs"

text \<open>
  Lines 66-118: one iteration, entered with the loop condition true. The first component
  of the result lists the calls of \<open>solve_sudoku\<close> that the iteration makes.
\<close>

definition turn ::
  "agent \<Rightarrow> agent \<Rightarrow> sudoku_oracle \<Rightarrow> nat \<Rightarrow> loop_state \<Rightarrow> query list \<times> outcome" where
  "turn player1 player2 orc k st =
     (let gs = game_state st;
          pn = player_number gs;
          (i, j, v) = best_move player1 player2 k gs
      in if \<not> move_eq (Move i j v) (Move 0 0 0) then
           if move_in (TabooMove i j v) (taboo_moves gs) then ([], Return (scores gs) (3 - pn))
           else
             ([(board gs, rc2f (board gs) i j, v)],
              apply_output pn (orc k (board gs) (rc2f (board gs) i j) v) i j v st)
         else ([], Return (scores gs) (3 - pn)))"

subsection \<open>The match\<close>

text \<open>Lines 49-51: the state on entry to the loop.\<close>

definition number_of_moves :: "SudokuBoard \<Rightarrow> nat" where
  "number_of_moves b = count_list (squares b) SudokuBoard_empty"

definition initial_state :: "SudokuBoard \<Rightarrow> loop_state" where
  "initial_state b =
     \<lparr>game_state = \<lparr>initial_board = b, board = b, taboo_moves = [], moves = [], scores = [0, 0]\<rparr>,
      move_number = 0\<rparr>"

text \<open>Lines 121-129: the winner when the loop is left through its condition.\<close>

definition game_winner :: "int list \<Rightarrow> nat" where
  "game_winner s = (if s ! 0 > s ! 1 then 1 else if s ! 0 = s ! 1 then 0 else 2)"

text \<open>
  Lines 65-130: the loop. It need not end (an oracle may answer every fresh move with
  \<open>has no solution\<close>), so a run that never returns has the value \<open>None\<close>.
\<close>

partial_function (option) turn_loop ::
  "agent \<Rightarrow> agent \<Rightarrow> sudoku_oracle \<Rightarrow> nat \<Rightarrow> nat \<Rightarrow> loop_state \<Rightarrow> (error + int list \<times> nat) option" where
  "turn_loop player1 player2 orc n k st =
     (if move_number st < n then
        (case snd (turn player1 player2 orc k st) of
           Continue st' \<Rightarrow> turn_loop player1 player2 orc n (Suc k) st'
         | Return s w \<Rightarrow> Some (Inr (s, w))
         | Raise e \<Rightarrow> Some (Inl e))
      else Some (Inr (scores (game_state st), game_winner (scores (game_state st)))))"

declare turn_loop.simps [code]

definition simulate_game ::
  "SudokuBoard \<Rightarrow> agent \<Rightarrow> agent \<Rightarrow> sudoku_oracle \<Rightarrow> (error + int list \<times> nat) option" where
  "simulate_game b player1 player2 orc =
     turn_loop player1 player2 orc (number_of_moves b) 0 (initial_state b)"

text \<open>
  The state on entry to iteration \<open>k\<close> of the loop, when the match gets that far: \<open>None\<close>
  once the loop has been left.
\<close>

fun state_at :: "SudokuBoard \<Rightarrow> agent \<Rightarrow> agent \<Rightarrow> sudoku_oracle \<Rightarrow> nat \<Rightarrow> loop_state option" where
  "state_at b player1 player2 orc 0 = Some (initial_state b)"
| "state_at b player1 player2 orc (Suc k) =
     (case state_at b player1 player2 orc k of
        None \<Rightarrow> None
      | Some st \<Rightarrow>
          if move_number st < number_of_moves b then
            (case snd (turn player1 player2 orc k st) of
               Continue st' \<Rightarrow> Some st'
             | _ \<Rightarrow> None)
          else None)"

subsection \<open>Observations on a match\<close>

text \<open>The text that the oracle returns in iteration \<open>k\<close>, when the iteration asks it.\<close>

definition oracle_output :: "agent \<Rightarrow> agent \<Rightarrow> sudoku_oracle \<Rightarrow> nat \<Rightarrow> GameState \<Rightarrow> string" where
  "oracle_output player1 player2 orc k gs =
     (case best_move player1 player2 k gs of
        (i, j, v) \<Rightarrow> orc k (board gs) (rc2f (board gs) i j) v)"

text \<open>
  The score that a text reports: the integer of its score line, and 0 when it has none
  (or none that \<open>int\<close> converts).
\<close>

definition reported_score :: "string \<Rightarrow> int" where
  "reported_score output =
     (case re_search_score output of
        None \<Rightarrow> 0
      | Some g \<Rightarrow> (case py_int g of Inl e \<Rightarrow> 0 | Inr p \<Rightarrow> p))"

text \<open>
  The scored moves of a history are the entries that line 110 appends, the taboo moves
  those that line 103 appends.
\<close>

fun is_scored :: "Move \<Rightarrow> bool" where
  "is_scored (Move i j v) = True"
| "is_scored (TabooMove i j v) = False"

definition scored_moves :: "GameState \<Rightarrow> nat" where
  "scored_moves gs = length (filter is_scored (moves gs))"

text \<open>The opponent of a player, \<open>3 - player_number\<close> in the source.\<close>

definition opponent :: "nat \<Rightarrow> nat" where
  "opponent pn = (if pn = 1 then 2 else 1)"

text \<open>The quantity \<open>len(game_state.moves) + len(game_state.taboo_moves)\<close>.\<close>

definition history_size :: "GameState \<Rightarrow> nat" where
  "history_size gs = length (moves gs) + length (taboo_moves gs)"

text \<open>The sum \<open>scores[0] + scores[1]\<close>.\<close>

definition score_sum :: "GameState \<Rightarrow> int" where
  "score_sum gs = scores gs ! 0 + scores gs ! 1"

text \<open>The player that acts in iteration \<open>k\<close>, when the match gets to that iteration.\<close>

definition acting_player ::
  "SudokuBoard \<Rightarrow> agent \<Rightarrow> agent \<Rightarrow> sudoku_oracle \<Rightarrow> nat \<Rightarrow> nat option" where
  "acting_player b player1 player2 orc k =
     (case state_at b player1 player2 orc k of
        None \<Rightarrow> None
      | Some st \<Rightarrow>
          if move_number st < number_of_moves b then Some (player_number (game_state st))
          else None)"

text \<open>
  How the loop is left from the state on entry to iteration \<open>m\<close> with result \<open>r\<close>:
  through a \<open>return\<close> or a raise of the iteration when the loop condition holds, through
  the loop condition and lines 121-130 otherwise.
\<close>

definition loop_left :: "agent \<Rightarrow> agent \<Rightarrow> sudoku_oracle \<Rightarrow> nat \<Rightarrow> nat \<Rightarrow> loop_state
    \<Rightarrow> (error + int list \<times> nat) \<Rightarrow> bool" where
  "loop_left p1 p2 orc n m st r =
     (if move_number st < n
      then (\<exists>s w. snd (turn p1 p2 orc m st) = Return s w \<and> r = Inr (s, w))
         \<or> (\<exists>e. snd (turn p1 p2 orc m st) = Raise e \<and> r = Inl e)
      else r = Inr (scores (game_state st), game_winner (scores (game_state st))))"

subsection \<open>Example matches\<close>

text \<open>
  A board of side 2 with two empty cells; agents that commit, in iteration \<open>k\<close>, the
  \<open>k\<close>-th triple of a script, and nothing once the script is exhausted; oracles that
  return, in iteration \<open>k\<close>, the \<open>k\<close>-th text of a script, and the empty text once
  the script is exhausted.
\<close>

definition example_board :: SudokuBoard where
  "example_board = \<lparr>board_N = 2, squares = [1, 0, 0, 2]\<rparr>"

definition scripted_agent :: "(int \<times> int \<times> int) list \<Rightarrow> agent" where
  "scripted_agent ms k gs = (if k < length ms then ms ! k else (0, 0, 0))"

definition scripted_oracle :: "string list \<Rightarrow> sudoku_oracle" where
  "scripted_oracle outs k b f v = (if k < length outs then outs ! k else [])"

section \<open>Properties of one iteration\<close>

lemma player_number_cases: "player_number gs = 1 \<or> player_number gs = 2"
  by (simp add: player_number_def)

lemma opponent_player_number: "3 - player_number gs = opponent (player_number gs)"
  by (simp add: player_number_def opponent_def)

lemma player_number_flip:
  "length (moves gs') = Suc (length (moves gs)) \<Longrightarrow>
   player_number gs' = opponent (player_number gs)"
  by (auto simp: player_number_def opponent_def) presburger+

lemma move_in_iff: "move_in (TabooMove i j v) ms \<longleftrightarrow> (i, j, v) \<in> move_triple ` set ms"
  by (auto simp: move_in_def move_eq_def list_ex_iff)

lemma move_not_in_iff:
  "(i, j, v) \<notin> move_triple ` set ms \<Longrightarrow> \<not> move_in (TabooMove i j v) ms"
  by (simp add: move_in_iff)

lemma re_search_score_sublist:
  "re_search_score out = Some g \<Longrightarrow> sublist ''The score is'' out"
proof (induction out)
  case Nil
  then show ?case by simp
next
  case (Cons c cs)
  show ?case
  proof (cases "prefix ''The score is '' (c # cs)")
    case True
    then obtain r where "c # cs = ''The score is '' @ r"
      by (auto simp: prefix_def)
    then have "c # cs = [] @ ''The score is'' @ ('' '' @ r)" by simp
    then show ?thesis unfolding sublist_def by blast
  next
    case False
    with Cons.prems have "re_search_score cs = Some g" by (auto split: if_splits)
    then have "sublist ''The score is'' cs" by (rule Cons.IH)
    then show ?thesis by (simp only: sublist_Cons_right) simp
  qed
qed

lemma reported_score_none: "\<not> sublist ''The score is'' out \<Longrightarrow> reported_score out = 0"
  by (auto simp: reported_score_def split: option.splits dest: re_search_score_sublist)

lemma add_score_zero: "add_score pn 0 gs = gs"
  by (simp add: add_score_def)

lemma loop_state_eq:
  "\<lparr>game_state = g, move_number = move_number st\<rparr> = st\<lparr>game_state := g\<rparr>"
  by (cases st) simp

lemma turn_sentinel:
  "best_move p1 p2 k (game_state st) = (0, 0, 0) \<Longrightarrow>
   turn p1 p2 orc k st = ([], Return (scores (game_state st)) (3 - player_number (game_state st)))"
  by (simp add: turn_def move_eq_def Let_def)

lemma turn_taboo:
  "best_move p1 p2 k (game_state st) = (i, j, v) \<Longrightarrow> (i, j, v) \<noteq> (0, 0, 0) \<Longrightarrow>
   move_in (TabooMove i j v) (taboo_moves (game_state st)) \<Longrightarrow>
   turn p1 p2 orc k st = ([], Return (scores (game_state st)) (3 - player_number (game_state st)))"
  by (simp add: turn_def move_eq_def Let_def)

lemma turn_oracle:
  "best_move p1 p2 k (game_state st) = (i, j, v) \<Longrightarrow> (i, j, v) \<noteq> (0, 0, 0) \<Longrightarrow>
   \<not> move_in (TabooMove i j v) (taboo_moves (game_state st)) \<Longrightarrow>
   turn p1 p2 orc k st =
     ([(board (game_state st), rc2f (board (game_state st)) i j, v)],
      apply_output (player_number (game_state st))
        (oracle_output p1 p2 orc k (game_state st)) i j v st)"
  by (simp add: turn_def move_eq_def oracle_output_def Let_def)

lemma turn_Continue:
  assumes "snd (turn p1 p2 orc k st) = Continue st'"
  obtains i j v where "best_move p1 p2 k (game_state st) = (i, j, v)"
    and "(i, j, v) \<noteq> (0, 0, 0)"
    and "\<not> move_in (TabooMove i j v) (taboo_moves (game_state st))"
    and "apply_output (player_number (game_state st))
           (oracle_output p1 p2 orc k (game_state st)) i j v st = Continue st'"
proof -
  obtain i j v where bm: "best_move p1 p2 k (game_state st) = (i, j, v)"
    by (cases "best_move p1 p2 k (game_state st)") auto
  show thesis
  proof (cases "(i, j, v) = (0, 0, 0)")
    case True
    with bm assms show ?thesis by (simp add: turn_sentinel)
  next
    case nz: False
    show ?thesis
    proof (cases "move_in (TabooMove i j v) (taboo_moves (game_state st))")
      case True
      with bm nz assms show ?thesis by (simp add: turn_taboo)
    next
      case False
      with bm nz assms that show ?thesis by (simp add: turn_oracle)
    qed
  qed
qed

text \<open>What an iteration that falls through to the loop test has done.\<close>

lemma apply_output_Continue:
  assumes "apply_output pn out i j v st = Continue st'"
  shows "\<not> sublist ''Invalid move'' out" and "\<not> sublist ''Illegal move'' out"
    and "moves (game_state st') = moves (game_state st)
           @ (if sublist ''has no solution'' out then [TabooMove i j v] else [])
           @ (if sublist ''The score is'' out then [Move i j v] else [])"
    and "taboo_moves (game_state st') = taboo_moves (game_state st)
           @ (if sublist ''has no solution'' out then [TabooMove i j v] else [])"
    and "scores (game_state st') =
           (scores (game_state st))[pn - 1 := scores (game_state st) ! (pn - 1) + reported_score out]"
    and "move_number st' = move_number st + (if sublist ''The score is'' out then 1 else 0)"
    and "initial_board (game_state st') = initial_board (game_state st)"
    and "if sublist ''The score is'' out
         then put (board (game_state st)) i j v = Inr (board (game_state st'))
         else board (game_state st') = board (game_state st)"
  using assms
  by (auto simp: apply_output_def Let_def record_taboo_def add_score_def reported_score_def
      split: if_splits option.splits sum.splits dest: re_search_score_sublist)

lemma apply_output_taboo_only:
  assumes "\<not> sublist ''Invalid move'' out" and "\<not> sublist ''Illegal move'' out"
    and "sublist ''has no solution'' out" and "\<not> sublist ''The score is'' out"
  shows "apply_output pn out i j v st =
         Continue (st\<lparr>game_state := (game_state st)
            \<lparr>moves := moves (game_state st) @ [TabooMove i j v],
             taboo_moves := taboo_moves (game_state st) @ [TabooMove i j v]\<rparr>\<rparr>)"
  using assms
  by (simp add: apply_output_def Let_def record_taboo_def add_score_zero loop_state_eq)

lemma apply_output_both:
  assumes "\<not> sublist ''Invalid move'' out" and "\<not> sublist ''Illegal move'' out"
    and "sublist ''has no solution'' out"
    and "re_search_score out = Some g" and "py_int g = Inr p"
    and "put (board (game_state st)) i j v = Inr b'"
  shows "apply_output pn out i j v st =
         Continue \<lparr>game_state = (game_state st)
            \<lparr>board := b',
             moves := moves (game_state st) @ [TabooMove i j v, Move i j v],
             taboo_moves := taboo_moves (game_state st) @ [TabooMove i j v],
             scores := (scores (game_state st))
                [pn - 1 := scores (game_state st) ! (pn - 1) + p]\<rparr>,
           move_number = move_number st + 1\<rparr>"
  using assms re_search_score_sublist[OF assms(4)]
  by (simp add: apply_output_def Let_def record_taboo_def add_score_def)

lemma apply_output_unmatched:
  assumes "\<not> sublist ''Invalid move'' out" and "\<not> sublist ''Illegal move'' out"
    and "\<not> sublist ''has no solution'' out" and "\<not> sublist ''The score is'' out"
  shows "apply_output pn out i j v st = Continue st"
  using assms
  by (simp add: apply_output_def Let_def record_taboo_def add_score_zero)

lemma unparsable_score_line_raises:
  assumes "\<not> sublist ''Invalid move'' out" and "\<not> sublist ''Illegal move'' out"
    and "sublist ''The score is'' out" and "re_search_score out = None"
  shows "apply_output pn out i j v st = Raise RuntimeError"
  using assms by (simp add: apply_output_def Let_def)

section \<open>Properties of a match\<close>

lemma state_at_Suc:
  assumes "state_at b p1 p2 orc (Suc k) = Some st'"
  obtains st where "state_at b p1 p2 orc k = Some st"
    and "move_number st < number_of_moves b"
    and "snd (turn p1 p2 orc k st) = Continue st'"
  using assms by (auto split: option.splits if_splits outcome.splits)

lemma state_at_step:
  "state_at b p1 p2 orc k = Some st \<Longrightarrow> move_number st < number_of_moves b \<Longrightarrow>
   snd (turn p1 p2 orc k st) = Continue st' \<Longrightarrow> state_at b p1 p2 orc (Suc k) = Some st'"
  by simp

lemma continuing_turn:
  assumes "state_at b p1 p2 orc k = Some st"
    and "state_at b p1 p2 orc (Suc k) = Some st'"
  obtains i j v where
    "apply_output (player_number (game_state st))
       (oracle_output p1 p2 orc k (game_state st)) i j v st = Continue st'"
proof -
  from assms(2) obtain st0 where "state_at b p1 p2 orc k = Some st0"
    and "snd (turn p1 p2 orc k st0) = Continue st'"
    by (rule state_at_Suc)
  with assms(1) have "snd (turn p1 p2 orc k st) = Continue st'" by simp
  then show thesis by (rule turn_Continue) (rule that)
qed

lemma scored_moves_step:
  assumes "apply_output pn out i j v st = Continue st'"
  shows "scored_moves (game_state st') =
         scored_moves (game_state st) + (if sublist ''The score is'' out then 1 else 0)"
  using apply_output_Continue(3)[OF assms] by (simp add: scored_moves_def)

lemma state_at_invariant:
  "state_at b p1 p2 orc k = Some st \<Longrightarrow>
   length (scores (game_state st)) = 2 \<and> move_number st = scored_moves (game_state st)
   \<and> move_number st \<le> number_of_moves b"
proof (induction k arbitrary: st)
  case 0
  then show ?case by (auto simp: initial_state_def scored_moves_def)
next
  case (Suc k)
  from Suc.prems obtain st0 where s0: "state_at b p1 p2 orc k = Some st0"
    and lt: "move_number st0 < number_of_moves b"
    and t: "snd (turn p1 p2 orc k st0) = Continue st"
    by (rule state_at_Suc)
  from t obtain i j v where
    ao: "apply_output (player_number (game_state st0))
           (oracle_output p1 p2 orc k (game_state st0)) i j v st0 = Continue st"
    by (rule turn_Continue)
  note ih = Suc.IH[OF s0]
  have "length (scores (game_state st)) = 2"
    using apply_output_Continue(5)[OF ao] ih by simp
  moreover have "move_number st = scored_moves (game_state st)"
    using apply_output_Continue(6)[OF ao] scored_moves_step[OF ao] ih by simp
  moreover have "move_number st \<le> number_of_moves b"
    using apply_output_Continue(6)[OF ao] lt by simp
  ultimately show ?case by simp
qed

lemma state_at_initial_board:
  "state_at b p1 p2 orc k = Some st \<Longrightarrow> initial_board (game_state st) = b"
proof (induction k arbitrary: st)
  case 0
  then show ?case by (auto simp: initial_state_def)
next
  case (Suc k)
  from Suc.prems obtain st0 where s0: "state_at b p1 p2 orc k = Some st0"
    and t: "snd (turn p1 p2 orc k st0) = Continue st"
    by (rule state_at_Suc)
  from t obtain i j v where
    ao: "apply_output (player_number (game_state st0))
           (oracle_output p1 p2 orc k (game_state st0)) i j v st0 = Continue st"
    by (rule turn_Continue)
  from apply_output_Continue(7)[OF ao] Suc.IH[OF s0] show ?case by simp
qed

lemma one_verdict_alternates:
  assumes "state_at b p1 p2 orc k = Some st"
    and "state_at b p1 p2 orc (Suc k) = Some st'"
    and "sublist ''has no solution'' (oracle_output p1 p2 orc k (game_state st))
         \<noteq> sublist ''The score is'' (oracle_output p1 p2 orc k (game_state st))"
  shows "player_number (game_state st') = opponent (player_number (game_state st))"
proof -
  from assms(1,2) obtain i j v where
    ao: "apply_output (player_number (game_state st))
       (oracle_output p1 p2 orc k (game_state st)) i j v st = Continue st'"
    by (rule continuing_turn)
  have "length (moves (game_state st')) = Suc (length (moves (game_state st)))"
    using apply_output_Continue(3)[OF ao] assms(3) by auto
  then show ?thesis by (rule player_number_flip)
qed

lemma turn_loop_unroll:
  "state_at b p1 p2 orc k = Some st \<Longrightarrow>
   simulate_game b p1 p2 orc = turn_loop p1 p2 orc (number_of_moves b) k st"
proof (induction k arbitrary: st)
  case 0
  then show ?case by (simp add: simulate_game_def)
next
  case (Suc k)
  from Suc.prems obtain st0 where s0: "state_at b p1 p2 orc k = Some st0"
    and lt: "move_number st0 < number_of_moves b"
    and t: "snd (turn p1 p2 orc k st0) = Continue st"
    by (rule state_at_Suc)
  have "turn_loop p1 p2 orc (number_of_moves b) k st0
        = turn_loop p1 p2 orc (number_of_moves b) (Suc k) st"
    using lt t by (subst turn_loop.simps) simp
  with Suc.IH[OF s0] show ?case by simp
qed

lemma turn_loop_Return:
  "move_number st < n \<Longrightarrow> snd (turn p1 p2 orc k st) = Return s w \<Longrightarrow>
   turn_loop p1 p2 orc n k st = Some (Inr (s, w))"
  by (subst turn_loop.simps) simp

lemma turn_loop_exit:
  "\<not> move_number st < n \<Longrightarrow>
   turn_loop p1 p2 orc n k st =
     Some (Inr (scores (game_state st), game_winner (scores (game_state st))))"
  by (subst turn_loop.simps) simp

lemma forfeit_ends_match:
  assumes "state_at b p1 p2 orc k = Some st"
    and "move_number st < number_of_moves b"
    and "snd (turn p1 p2 orc k st) = Return s w"
  shows "simulate_game b p1 p2 orc = Some (Inr (s, w))"
  by (simp add: turn_loop_unroll[OF assms(1)] turn_loop_Return[OF assms(2,3)])

lemma turn_loop_return_cases:
  assumes "turn_loop p1 p2 orc n k st = Some r"
  shows "\<forall>b. n = number_of_moves b \<longrightarrow> state_at b p1 p2 orc k = Some st \<longrightarrow>
           (\<exists>m st'. state_at b p1 p2 orc m = Some st' \<and> loop_left p1 p2 orc n m st' r)"
  using assms
proof (induction p1 p2 orc n k st r rule: turn_loop.raw_induct[rotated 1, consumes 1, case_names step])
  case (step loop p1 p2 orc n k st r)
  show ?case
  proof (intro allI impI)
    fix b
    assume n: "n = number_of_moves b" and at: "state_at b p1 p2 orc k = Some st"
    show "\<exists>m st'. state_at b p1 p2 orc m = Some st' \<and> loop_left p1 p2 orc n m st' r"
    proof (cases "move_number st < n")
      case False
      with step.hyps have "loop_left p1 p2 orc n k st r"
        by (simp add: loop_left_def)
      with at show ?thesis by blast
    next
      case lt: True
      show ?thesis
      proof (cases "snd (turn p1 p2 orc k st)")
        case (Continue st2)
        with lt step.hyps have call: "loop p1 p2 orc n (Suc k) st2 = Some r" by simp
        from lt Continue n at have "state_at b p1 p2 orc (Suc k) = Some st2" by simp
        with step.IH[OF call] n show ?thesis by blast
      next
        case (Return s w)
        with lt step.hyps have "loop_left p1 p2 orc n k st r"
          by (simp add: loop_left_def)
        with at show ?thesis by blast
      next
        case (Raise e)
        with lt step.hyps have "loop_left p1 p2 orc n k st r"
          by (simp add: loop_left_def)
        with at show ?thesis by blast
      qed
    qed
  qed
qed

lemma simulate_game_return_cases:
  assumes "simulate_game b p1 p2 orc = Some r"
  shows "\<exists>m st'. state_at b p1 p2 orc m = Some st'
           \<and> loop_left p1 p2 orc (number_of_moves b) m st' r"
  using turn_loop_return_cases[OF assms[unfolded simulate_game_def]] by simp

section \<open>Evaluating the example matches\<close>

text \<open>The equations that evaluate the example matches.\<close>

lemmas example_simps =
  example_board_def scripted_agent_def scripted_oracle_def initial_state_def
  number_of_moves_def SudokuBoard_empty_def turn_def best_move_def player_number_def
  move_eq_def move_in_def apply_output_def record_taboo_def add_score_def
  sublist_code is_score_char_def is_digit_def py_int_def digits_value_def
  put_def rc2f_def oracle_output_def reported_score_def opponent_def
  scored_moves_def history_size_def game_winner_def score_sum_def acting_player_def

section \<open>The claims\<close>

subsection \<open>Normal termination\<close>

text \<open>
  Claim C1. At every test of the loop condition that a match reaches, the bound of the loop
  is the number of empty cells of the initial board, the counter \<open>move_number\<close> equals
  the number of scored moves in the history (the taboo moves in it are not counted), that
  number is at most the bound, the loop goes on exactly when the two numbers differ, and
  when they are equal
  \<open>simulate_game\<close> returns the scores with winner 1 if \<open>scores[0] > scores[1]\<close>, 0 if
  they are equal and 2 otherwise.
\<close>

theorem simulate_game_normal_termination:
  assumes "state_at b player1 player2 orc k = Some st"
  shows "number_of_moves b = count_list (squares (initial_board (game_state st))) SudokuBoard_empty
       \<and> move_number st = scored_moves (game_state st)
       \<and> scored_moves (game_state st) \<le> number_of_moves b
       \<and> (move_number st < number_of_moves b
            \<longleftrightarrow> scored_moves (game_state st) \<noteq> number_of_moves b)
       \<and> (scored_moves (game_state st) = number_of_moves b \<longrightarrow>
            simulate_game b player1 player2 orc =
              Some (Inr (scores (game_state st),
                         if scores (game_state st) ! 0 > scores (game_state st) ! 1 then 1
                         else if scores (game_state st) ! 0 = scores (game_state st) ! 1 then 0
                         else 2)))"
proof -
  note inv = state_at_invariant[OF assms]
  have ib: "number_of_moves b
      = count_list (squares (initial_board (game_state st))) SudokuBoard_empty"
    by (simp add: state_at_initial_board[OF assms] number_of_moves_def)
  have "simulate_game b player1 player2 orc =
          Some (Inr (scores (game_state st), game_winner (scores (game_state st))))"
    if "scored_moves (game_state st) = number_of_moves b"
  proof -
    from that inv have "\<not> move_number st < number_of_moves b" by simp
    then show ?thesis
      by (simp add: turn_loop_unroll[OF assms] turn_loop_exit)
  qed
  with inv ib show ?thesis by (auto simp: game_winner_def)
qed

theorem simulate_game_normal_termination_witness:
  "state_at example_board
     (scripted_agent [(0, 1, 3), (1, 0, 9), (1, 0, 4)])
     (scripted_agent [(0, 1, 3), (1, 0, 9), (1, 0, 4)])
     (scripted_oracle [''The score is 1'', ''The sudoku has no solution'', ''The score is 2''])
     (Suc (Suc (Suc 0)))
   = Some \<lparr>game_state =
             \<lparr>initial_board = example_board,
              board = \<lparr>board_N = 2, squares = [1, 3, 4, 2]\<rparr>,
              taboo_moves = [TabooMove 1 0 9],
              moves = [Move 0 1 3, TabooMove 1 0 9, Move 1 0 4],
              scores = [3, 0]\<rparr>,
           move_number = 2\<rparr>
   \<and> number_of_moves example_board = 2
   \<and> simulate_game example_board
     (scripted_agent [(0, 1, 3), (1, 0, 9), (1, 0, 4)])
     (scripted_agent [(0, 1, 3), (1, 0, 9), (1, 0, 4)])
     (scripted_oracle [''The score is 1'', ''The sudoku has no solution'', ''The score is 2''])
   = Some (Inr ([3, 0], 1))"
proof -
  have h: "state_at example_board
     (scripted_agent [(0, 1, 3), (1, 0, 9), (1, 0, 4)])
     (scripted_agent [(0, 1, 3), (1, 0, 9), (1, 0, 4)])
     (scripted_oracle [''The score is 1'', ''The sudoku has no solution'', ''The score is 2''])
     (Suc (Suc (Suc 0)))
   = Some \<lparr>game_state =
             \<lparr>initial_board = example_board,
              board = \<lparr>board_N = 2, squares = [1, 3, 4, 2]\<rparr>,
              taboo_moves = [TabooMove 1 0 9],
              moves = [Move 0 1 3, TabooMove 1 0 9, Move 1 0 4],
              scores = [3, 0]\<rparr>,
           move_number = 2\<rparr>"
    by (simp add: example_simps)
  have n: "number_of_moves example_board = 2"
    by (simp add: example_simps)
  from simulate_game_normal_termination[OF h] h n show ?thesis
    by (simp add: scored_moves_def)
qed

subsection \<open>Turn attribution\<close>

text \<open>
  Claim C2 says that the players of two consecutive iterations differ. The player is read
  off \<open>len(moves)\<close> (line 66), and an iteration whose oracle text has none of the four
  phrases appends nothing: in the match below player 1 acts in iteration 0 and again in
  iteration 1.
\<close>

theorem same_player_acts_twice:
  "acting_player example_board (scripted_agent [(0, 1, 3), (0, 1, 3)])
     (scripted_agent [(0, 1, 3), (0, 1, 3)]) (scripted_oracle [''Segmentation fault'']) 0
   = Some 1
   \<and> acting_player example_board (scripted_agent [(0, 1, 3), (0, 1, 3)])
     (scripted_agent [(0, 1, 3), (0, 1, 3)]) (scripted_oracle [''Segmentation fault'']) (Suc 0)
   = Some 1"
  by (simp add: example_simps)

subsection \<open>Growth of the histories\<close>

text \<open>
  Claim C3 says that \<open>len(moves) + len(taboo_moves)\<close> grows by exactly one in every
  iteration that does not end the match. A taboo recording appends the move to both lists
  (lines 103 and 104): in the match below the first iteration goes on to a second one and
  the quantity has gone from 0 to 2.
\<close>

theorem history_growth_counterexample:
  "state_at example_board (scripted_agent [(0, 1, 9)]) (scripted_agent [(0, 1, 9)])
     (scripted_oracle [''The sudoku has no solution'']) 0
   = Some (initial_state example_board)
   \<and> state_at example_board (scripted_agent [(0, 1, 9)]) (scripted_agent [(0, 1, 9)])
     (scripted_oracle [''The sudoku has no solution'']) (Suc 0)
   = Some \<lparr>game_state =
             \<lparr>initial_board = example_board, board = example_board,
              taboo_moves = [TabooMove 0 1 9], moves = [TabooMove 0 1 9], scores = [0, 0]\<rparr>,
           move_number = 0\<rparr>
   \<and> history_size (game_state (initial_state example_board)) = 0
   \<and> history_size \<lparr>initial_board = example_board, board = example_board,
              taboo_moves = [TabooMove 0 1 9], moves = [TabooMove 0 1 9], scores = [0, 0]\<rparr> = 2
   \<and> history_size \<lparr>initial_board = example_board, board = example_board,
              taboo_moves = [TabooMove 0 1 9], moves = [TabooMove 0 1 9], scores = [0, 0]\<rparr>
     \<noteq> history_size (game_state (initial_state example_board)) + 1"
  by (simp add: example_simps)

text \<open>
  Claim C3, amended. In an iteration that does not end the match, \<open>len(moves)\<close> grows by
  exactly one both in a scored application (a score line and no \<open>has no solution\<close>) and
  in a taboo recording (\<open>has no solution\<close> and no score line);
  \<open>len(moves) + len(taboo_moves)\<close> grows by one in the former and by two in the latter.
\<close>

theorem history_growth:
  assumes "state_at b player1 player2 orc k = Some st"
    and "state_at b player1 player2 orc (Suc k) = Some st'"
  shows "(sublist ''The score is'' (oracle_output player1 player2 orc k (game_state st))
          \<and> \<not> sublist ''has no solution'' (oracle_output player1 player2 orc k (game_state st))
          \<longrightarrow> length (moves (game_state st')) = length (moves (game_state st)) + 1
            \<and> history_size (game_state st') = history_size (game_state st) + 1)
       \<and> (sublist ''has no solution'' (oracle_output player1 player2 orc k (game_state st))
          \<and> \<not> sublist ''The score is'' (oracle_output player1 player2 orc k (game_state st))
          \<longrightarrow> length (moves (game_state st')) = length (moves (game_state st)) + 1
            \<and> history_size (game_state st') = history_size (game_state st) + 2)"
proof -
  from assms obtain i j v where
    ao: "apply_output (player_number (game_state st))
       (oracle_output player1 player2 orc k (game_state st)) i j v st = Continue st'"
    by (rule continuing_turn)
  show ?thesis
    using apply_output_Continue(3)[OF ao] apply_output_Continue(4)[OF ao]
    by (simp add: history_size_def)
qed

theorem history_growth_witness:
  "history_size (game_state (initial_state example_board)) = 0
   \<and> oracle_output (scripted_agent [(0, 1, 3), (1, 0, 9)]) (scripted_agent [(0, 1, 3), (1, 0, 9)])
       (scripted_oracle [''The score is 1'', ''The sudoku has no solution'']) 0
       (game_state (initial_state example_board)) = ''The score is 1''
   \<and> state_at example_board (scripted_agent [(0, 1, 3), (1, 0, 9)])
       (scripted_agent [(0, 1, 3), (1, 0, 9)])
       (scripted_oracle [''The score is 1'', ''The sudoku has no solution'']) (Suc 0)
     = Some \<lparr>game_state =
             \<lparr>initial_board = example_board, board = \<lparr>board_N = 2, squares = [1, 3, 0, 2]\<rparr>,
              taboo_moves = [], moves = [Move 0 1 3], scores = [1, 0]\<rparr>,
           move_number = 1\<rparr>
   \<and> history_size \<lparr>initial_board = example_board, board = \<lparr>board_N = 2, squares = [1, 3, 0, 2]\<rparr>,
              taboo_moves = [], moves = [Move 0 1 3], scores = [1, 0]\<rparr> = 1
   \<and> oracle_output (scripted_agent [(0, 1, 3), (1, 0, 9)]) (scripted_agent [(0, 1, 3), (1, 0, 9)])
       (scripted_oracle [''The score is 1'', ''The sudoku has no solution'']) (Suc 0)
       \<lparr>initial_board = example_board, board = \<lparr>board_N = 2, squares = [1, 3, 0, 2]\<rparr>,
              taboo_moves = [], moves = [Move 0 1 3], scores = [1, 0]\<rparr>
     = ''The sudoku has no solution''
   \<and> state_at example_board (scripted_agent [(0, 1, 3), (1, 0, 9)])
       (scripted_agent [(0, 1, 3), (1, 0, 9)])
       (scripted_oracle [''The score is 1'', ''The sudoku has no solution'']) (Suc (Suc 0))
     = Some \<lparr>game_state =
             \<lparr>initial_board = example_board, board = \<lparr>board_N = 2, squares = [1, 3, 0, 2]\<rparr>,
              taboo_moves = [TabooMove 1 0 9], moves = [Move 0 1 3, TabooMove 1 0 9],
              scores = [1, 0]\<rparr>,
           move_number = 1\<rparr>
   \<and> history_size \<lparr>initial_board = example_board, board = \<lparr>board_N = 2, squares = [1, 3, 0, 2]\<rparr>,
              taboo_moves = [TabooMove 1 0 9], moves = [Move 0 1 3, TabooMove 1 0 9],
              scores = [1, 0]\<rparr> = 3"
proof -
  let ?A = "scripted_agent [(0, 1, 3), (1, 0, 9)]"
  let ?O = "scripted_oracle [''The score is 1'', ''The sudoku has no solution'']"
  let ?g1 = "\<lparr>initial_board = example_board, board = \<lparr>board_N = 2, squares = [1, 3, 0, 2]\<rparr>,
              taboo_moves = [], moves = [Move 0 1 3], scores = [1, 0]\<rparr>"
  let ?g2 = "\<lparr>initial_board = example_board, board = \<lparr>board_N = 2, squares = [1, 3, 0, 2]\<rparr>,
              taboo_moves = [TabooMove 1 0 9], moves = [Move 0 1 3, TabooMove 1 0 9],
              scores = [1, 0]\<rparr>"
  have s0: "state_at example_board ?A ?A ?O 0 = Some (initial_state example_board)" by simp
  have s1: "state_at example_board ?A ?A ?O (Suc 0) = Some \<lparr>game_state = ?g1, move_number = 1\<rparr>"
    by (simp add: example_simps)
  have s2: "state_at example_board ?A ?A ?O (Suc (Suc 0))
      = Some \<lparr>game_state = ?g2, move_number = 1\<rparr>"
    by (simp add: example_simps)
  have o0: "oracle_output ?A ?A ?O 0 (game_state (initial_state example_board))
      = ''The score is 1''"
    by (simp add: example_simps)
  have o1: "oracle_output ?A ?A ?O (Suc 0) ?g1 = ''The sudoku has no solution''"
    by (simp add: example_simps)
  have h0: "history_size (game_state (initial_state example_board)) = 0"
    by (simp add: example_simps)
  have "history_size ?g1 = 1"
    using history_growth[OF s0 s1] h0 by (simp add: o0 sublist_code)
  moreover from this have "history_size ?g2 = 3"
    using history_growth[OF s1 s2] by (simp add: o1 sublist_code)
  ultimately show ?thesis
    using s1 s2 o0 o1 h0 by (simp del: state_at.simps)
qed

subsection \<open>Repeating a taboo move\<close>

text \<open>
  Claim C4. In an iteration whose proposed move is not the sentinel and has the (row,
  column, value) triple of a move already in \<open>game_state.taboo_moves\<close>, the iteration
  makes no call of the oracle and returns the scores as they were on entry with the
  opponent of the active player as winner, and this is the result of \<open>simulate_game\<close>.
\<close>

theorem taboo_repeat_forfeits:
  assumes "state_at b player1 player2 orc k = Some st"
    and "move_number st < number_of_moves b"
    and "best_move player1 player2 k (game_state st) = (i, j, v)"
    and "(i, j, v) \<noteq> (0, 0, 0)"
    and "(i, j, v) \<in> move_triple ` set (taboo_moves (game_state st))"
  shows "turn player1 player2 orc k st =
           ([], Return (scores (game_state st)) (opponent (player_number (game_state st))))
       \<and> simulate_game b player1 player2 orc =
           Some (Inr (scores (game_state st), opponent (player_number (game_state st))))"
proof -
  from assms(5) have "move_in (TabooMove i j v) (taboo_moves (game_state st))"
    by (simp add: move_in_iff)
  with assms(3,4) have t: "turn player1 player2 orc k st =
      ([], Return (scores (game_state st)) (opponent (player_number (game_state st))))"
    by (simp add: turn_taboo opponent_player_number)
  then have "snd (turn player1 player2 orc k st) =
      Return (scores (game_state st)) (opponent (player_number (game_state st)))"
    by simp
  with assms(1,2) t show ?thesis
    by (simp add: forfeit_ends_match)
qed

theorem taboo_repeat_forfeits_witness:
  "state_at example_board (scripted_agent [(0, 1, 9), (0, 1, 9)])
     (scripted_agent [(0, 1, 9), (0, 1, 9)]) (scripted_oracle [''The sudoku has no solution''])
     (Suc 0)
   = Some \<lparr>game_state =
             \<lparr>initial_board = example_board, board = example_board,
              taboo_moves = [TabooMove 0 1 9], moves = [TabooMove 0 1 9], scores = [0, 0]\<rparr>,
           move_number = 0\<rparr>
   \<and> turn (scripted_agent [(0, 1, 9), (0, 1, 9)]) (scripted_agent [(0, 1, 9), (0, 1, 9)])
       (scripted_oracle [''The sudoku has no solution'']) (Suc 0)
       \<lparr>game_state =
             \<lparr>initial_board = example_board, board = example_board,
              taboo_moves = [TabooMove 0 1 9], moves = [TabooMove 0 1 9], scores = [0, 0]\<rparr>,
           move_number = 0\<rparr>
     = ([], Return [0, 0] 1)
   \<and> simulate_game example_board (scripted_agent [(0, 1, 9), (0, 1, 9)])
       (scripted_agent [(0, 1, 9), (0, 1, 9)]) (scripted_oracle [''The sudoku has no solution''])
     = Some (Inr ([0, 0], 1))"
proof -
  let ?A = "scripted_agent [(0, 1, 9), (0, 1, 9)]"
  let ?O = "scripted_oracle [''The sudoku has no solution'']"
  let ?st = "\<lparr>game_state =
             \<lparr>initial_board = example_board, board = example_board,
              taboo_moves = [TabooMove 0 1 9], moves = [TabooMove 0 1 9], scores = [0, 0]\<rparr>,
           move_number = 0\<rparr>"
  have h1: "state_at example_board ?A ?A ?O (Suc 0) = Some ?st"
    by (simp add: example_simps)
  have h2: "move_number ?st < number_of_moves example_board"
    by (simp add: example_simps)
  have h3: "best_move ?A ?A (Suc 0) (game_state ?st) = (0, 1, 9)"
    by (simp add: example_simps)
  have h4: "(0, 1, 9) \<noteq> (0, 0, 0 :: int)" by simp
  have h5: "(0, 1, 9) \<in> move_triple ` set (taboo_moves (game_state ?st))" by simp
  from taboo_repeat_forfeits[OF h1 h2 h3 h4 h5] h1 show ?thesis
    by (simp add: opponent_def player_number_def)
qed

subsection \<open>No move\<close>

text \<open>
  Claim C5. In an iteration whose retrieved best move is the sentinel \<open>(0, 0, 0)\<close>, the
  iteration makes no call of the oracle and returns the scores as they were on entry with
  the opponent of the active player as winner, and this is the result of \<open>simulate_game\<close>.
\<close>

theorem no_move_forfeits:
  assumes "state_at b player1 player2 orc k = Some st"
    and "move_number st < number_of_moves b"
    and "best_move player1 player2 k (game_state st) = (0, 0, 0)"
  shows "turn player1 player2 orc k st =
           ([], Return (scores (game_state st)) (opponent (player_number (game_state st))))
       \<and> simulate_game b player1 player2 orc =
           Some (Inr (scores (game_state st), opponent (player_number (game_state st))))"
proof -
  from assms(3) have t: "turn player1 player2 orc k st =
      ([], Return (scores (game_state st)) (opponent (player_number (game_state st))))"
    by (simp add: turn_sentinel opponent_player_number)
  then have "snd (turn player1 player2 orc k st) =
      Return (scores (game_state st)) (opponent (player_number (game_state st)))"
    by simp
  with assms(1,2) t show ?thesis
    by (simp add: forfeit_ends_match)
qed

theorem no_move_forfeits_witness:
  "state_at example_board (scripted_agent [(0, 1, 3)]) (scripted_agent [])
     (scripted_oracle [''The score is 1'']) (Suc 0)
   = Some \<lparr>game_state =
             \<lparr>initial_board = example_board, board = \<lparr>board_N = 2, squares = [1, 3, 0, 2]\<rparr>,
              taboo_moves = [], moves = [Move 0 1 3], scores = [1, 0]\<rparr>,
           move_number = 1\<rparr>
   \<and> turn (scripted_agent [(0, 1, 3)]) (scripted_agent [])
       (scripted_oracle [''The score is 1'']) (Suc 0)
       \<lparr>game_state =
             \<lparr>initial_board = example_board, board = \<lparr>board_N = 2, squares = [1, 3, 0, 2]\<rparr>,
              taboo_moves = [], moves = [Move 0 1 3], scores = [1, 0]\<rparr>,
           move_number = 1\<rparr>
     = ([], Return [1, 0] 1)
   \<and> simulate_game example_board (scripted_agent [(0, 1, 3)]) (scripted_agent [])
       (scripted_oracle [''The score is 1''])
     = Some (Inr ([1, 0], 1))"
proof -
  let ?A = "scripted_agent [(0, 1, 3)]"
  let ?B = "scripted_agent []"
  let ?O = "scripted_oracle [''The score is 1'']"
  let ?st = "\<lparr>game_state =
             \<lparr>initial_board = example_board, board = \<lparr>board_N = 2, squares = [1, 3, 0, 2]\<rparr>,
              taboo_moves = [], moves = [Move 0 1 3], scores = [1, 0]\<rparr>,
           move_number = 1\<rparr>"
  have h1: "state_at example_board ?A ?B ?O (Suc 0) = Some ?st"
    by (simp add: example_simps)
  have h2: "move_number ?st < number_of_moves example_board"
    by (simp add: example_simps)
  have h3: "best_move ?A ?B (Suc 0) (game_state ?st) = (0, 0, 0)"
    by (simp add: example_simps)
  from no_move_forfeits[OF h1 h2 h3] h1 show ?thesis
    by (simp add: opponent_def player_number_def)
qed

subsection \<open>Recording a taboo move\<close>

text \<open>
  Claim C6. In an iteration whose proposed move is neither the sentinel nor a recorded
  taboo move and whose oracle text gives the verdict that the sudoku has no solution after
  the move (the text has \<open>has no solution\<close>, no score line, and neither of the two
  phrases that are tested before it), the match goes on from the state on entry with the
  move appended, as a taboo move, to \<open>taboo_moves\<close> and to \<open>moves\<close>, and nothing else
  changed: the next iteration is the other player's, the squares of the board are the same,
  and the score of the active player has grown by 0.
\<close>

theorem taboo_recording_turn:
  assumes "state_at b player1 player2 orc k = Some st"
    and "move_number st < number_of_moves b"
    and "best_move player1 player2 k (game_state st) = (i, j, v)"
    and "(i, j, v) \<noteq> (0, 0, 0)"
    and "(i, j, v) \<notin> move_triple ` set (taboo_moves (game_state st))"
    and "\<not> sublist ''Invalid move'' (oracle_output player1 player2 orc k (game_state st))"
    and "\<not> sublist ''Illegal move'' (oracle_output player1 player2 orc k (game_state st))"
    and "sublist ''has no solution'' (oracle_output player1 player2 orc k (game_state st))"
    and "\<not> sublist ''The score is'' (oracle_output player1 player2 orc k (game_state st))"
  shows "\<exists>st'. state_at b player1 player2 orc (Suc k) = Some st'
       \<and> st' = st\<lparr>game_state := (game_state st)
            \<lparr>moves := moves (game_state st) @ [TabooMove i j v],
             taboo_moves := taboo_moves (game_state st) @ [TabooMove i j v]\<rparr>\<rparr>
       \<and> player_number (game_state st') = opponent (player_number (game_state st))
       \<and> squares (board (game_state st')) = squares (board (game_state st))
       \<and> scores (game_state st') ! (player_number (game_state st) - 1)
           = scores (game_state st) ! (player_number (game_state st) - 1) + 0"
proof -
  let ?st' = "st\<lparr>game_state := (game_state st)
            \<lparr>moves := moves (game_state st) @ [TabooMove i j v],
             taboo_moves := taboo_moves (game_state st) @ [TabooMove i j v]\<rparr>\<rparr>"
  have "snd (turn player1 player2 orc k st) = Continue ?st'"
    using assms(3-9)
    by (simp add: turn_oracle move_not_in_iff apply_output_taboo_only)
  with assms(1,2) have "state_at b player1 player2 orc (Suc k) = Some ?st'"
    by simp
  moreover have "player_number (game_state ?st') = opponent (player_number (game_state st))"
    by (rule player_number_flip) simp
  ultimately show ?thesis by simp
qed

theorem taboo_recording_turn_witness:
  "oracle_output (scripted_agent [(0, 1, 9)]) (scripted_agent [(0, 1, 9)])
     (scripted_oracle [''The sudoku has no solution'']) 0 (game_state (initial_state example_board))
   = ''The sudoku has no solution''
   \<and> state_at example_board (scripted_agent [(0, 1, 9)]) (scripted_agent [(0, 1, 9)])
     (scripted_oracle [''The sudoku has no solution'']) (Suc 0)
   = Some \<lparr>game_state =
             \<lparr>initial_board = example_board, board = example_board,
              taboo_moves = [TabooMove 0 1 9], moves = [TabooMove 0 1 9], scores = [0, 0]\<rparr>,
           move_number = 0\<rparr>
   \<and> acting_player example_board (scripted_agent [(0, 1, 9)]) (scripted_agent [(0, 1, 9)])
     (scripted_oracle [''The sudoku has no solution'']) 0 = Some 1
   \<and> acting_player example_board (scripted_agent [(0, 1, 9)]) (scripted_agent [(0, 1, 9)])
     (scripted_oracle [''The sudoku has no solution'']) (Suc 0) = Some 2"
proof -
  let ?A = "scripted_agent [(0, 1, 9)]"
  let ?O = "scripted_oracle [''The sudoku has no solution'']"
  let ?st = "initial_state example_board"
  have h1: "state_at example_board ?A ?A ?O 0 = Some ?st" by simp
  have h2: "move_number ?st < number_of_moves example_board"
    by (simp add: example_simps)
  have h3: "best_move ?A ?A 0 (game_state ?st) = (0, 1, 9)"
    by (simp add: example_simps)
  have h4: "(0, 1, 9) \<noteq> (0, 0, 0 :: int)" by simp
  have h5: "(0, 1, 9) \<notin> move_triple ` set (taboo_moves (game_state ?st))"
    by (simp add: example_simps)
  have out: "oracle_output ?A ?A ?O 0 (game_state ?st) = ''The sudoku has no solution''"
    by (simp add: example_simps)
  have h6: "\<not> sublist ''Invalid move'' (oracle_output ?A ?A ?O 0 (game_state ?st))"
    by (simp add: out sublist_code)
  have h7: "\<not> sublist ''Illegal move'' (oracle_output ?A ?A ?O 0 (game_state ?st))"
    by (simp add: out sublist_code)
  have h8: "sublist ''has no solution'' (oracle_output ?A ?A ?O 0 (game_state ?st))"
    by (simp add: out sublist_code)
  have h9: "\<not> sublist ''The score is'' (oracle_output ?A ?A ?O 0 (game_state ?st))"
    by (simp add: out sublist_code)
  from taboo_recording_turn[OF h1 h2 h3 h4 h5 h6 h7 h8 h9]
  have s1: "state_at example_board ?A ?A ?O (Suc 0) = Some \<lparr>game_state =
             \<lparr>initial_board = example_board, board = example_board,
              taboo_moves = [TabooMove 0 1 9], moves = [TabooMove 0 1 9], scores = [0, 0]\<rparr>,
           move_number = 0\<rparr>"
    by (simp add: initial_state_def)
  have n: "number_of_moves example_board = 2" by (simp add: example_simps)
  have "acting_player example_board ?A ?A ?O 0 = Some 1"
    unfolding acting_player_def h1 by (simp add: n initial_state_def player_number_def)
  moreover have "acting_player example_board ?A ?A ?O (Suc 0) = Some 2"
    unfolding acting_player_def s1 by (simp add: n player_number_def)
  ultimately show ?thesis using out s1 by simp
qed

subsection \<open>Unexpected oracle text\<close>

text \<open>
  Claim C7 says that an oracle text matching none of the verdicts makes the iteration
  fail. Line 113 raises only when \<open>The score is\<close> occurs without a number; a text with
  none of the four phrases falls through all four tests: in the match below the iteration
  calls the oracle, raises nothing, and the match goes on from an unchanged state.
\<close>

theorem unmatched_output_not_raised:
  "oracle_output (scripted_agent [(0, 1, 3)]) (scripted_agent [(0, 1, 3)])
     (scripted_oracle [''solve_sudoku: command not found'']) 0
     (game_state (initial_state example_board))
   = ''solve_sudoku: command not found''
   \<and> \<not> sublist ''Invalid move'' ''solve_sudoku: command not found''
   \<and> \<not> sublist ''Illegal move'' ''solve_sudoku: command not found''
   \<and> \<not> sublist ''has no solution'' ''solve_sudoku: command not found''
   \<and> \<not> sublist ''The score is'' ''solve_sudoku: command not found''
   \<and> turn (scripted_agent [(0, 1, 3)]) (scripted_agent [(0, 1, 3)])
       (scripted_oracle [''solve_sudoku: command not found'']) 0 (initial_state example_board)
     = ([(example_board, 1, 3)], Continue (initial_state example_board))
   \<and> state_at example_board (scripted_agent [(0, 1, 3)]) (scripted_agent [(0, 1, 3)])
       (scripted_oracle [''solve_sudoku: command not found'']) (Suc 0)
     = Some (initial_state example_board)"
  by (simp add: example_simps)

subsection \<open>Scores\<close>

text \<open>
  Claim C8 says that \<open>scores[0] + scores[1]\<close> never decreases. The pattern of line 106
  admits a minus sign, and a negative score is added like any other: in the match below
  the oracle reports \<open>-1\<close> and the sum goes from 0 to \<open>-1\<close>.
\<close>

theorem score_sum_counterexample:
  "state_at example_board (scripted_agent [(0, 1, 3)]) (scripted_agent [(0, 1, 3)])
     (scripted_oracle [''The score is -1'']) 0
   = Some (initial_state example_board)
   \<and> state_at example_board (scripted_agent [(0, 1, 3)]) (scripted_agent [(0, 1, 3)])
     (scripted_oracle [''The score is -1'']) (Suc 0)
   = Some \<lparr>game_state =
             \<lparr>initial_board = example_board, board = \<lparr>board_N = 2, squares = [1, 3, 0, 2]\<rparr>,
              taboo_moves = [], moves = [Move 0 1 3], scores = [- 1, 0]\<rparr>,
           move_number = 1\<rparr>
   \<and> score_sum \<lparr>initial_board = example_board, board = \<lparr>board_N = 2, squares = [1, 3, 0, 2]\<rparr>,
              taboo_moves = [], moves = [Move 0 1 3], scores = [- 1, 0]\<rparr>
     < score_sum (game_state (initial_state example_board))"
  by (simp add: example_simps)

text \<open>
  Claim C8, amended. In an iteration that does not end the match, the score of the active
  player changes by exactly the score that the oracle's text reports, the score of the
  other player does not change, so the sum changes by the reported score and does not
  decrease when that score is not negative; a text without a score line, as in a taboo
  recording, reports 0.
\<close>

theorem score_delta_is_reported_score:
  assumes "state_at b player1 player2 orc k = Some st"
    and "state_at b player1 player2 orc (Suc k) = Some st'"
  shows "scores (game_state st') ! (player_number (game_state st) - 1)
           = scores (game_state st) ! (player_number (game_state st) - 1)
             + reported_score (oracle_output player1 player2 orc k (game_state st))
       \<and> scores (game_state st') ! (opponent (player_number (game_state st)) - 1)
           = scores (game_state st) ! (opponent (player_number (game_state st)) - 1)
       \<and> score_sum (game_state st')
           = score_sum (game_state st)
             + reported_score (oracle_output player1 player2 orc k (game_state st))
       \<and> (0 \<le> reported_score (oracle_output player1 player2 orc k (game_state st))
            \<longrightarrow> score_sum (game_state st) \<le> score_sum (game_state st'))
       \<and> (\<not> sublist ''The score is'' (oracle_output player1 player2 orc k (game_state st))
            \<longrightarrow> reported_score (oracle_output player1 player2 orc k (game_state st)) = 0)"
proof -
  from assms obtain i j v where
    ao: "apply_output (player_number (game_state st))
       (oracle_output player1 player2 orc k (game_state st)) i j v st = Continue st'"
    by (rule continuing_turn)
  have len: "length (scores (game_state st)) = 2"
    using state_at_invariant[OF assms(1)] by simp
  note upd = apply_output_Continue(5)[OF ao]
  show ?thesis
  proof (cases "player_number (game_state st) = 1")
    case True
    with upd len show ?thesis
      by (simp add: score_sum_def opponent_def reported_score_none)
  next
    case False
    with player_number_cases[of "game_state st"] have "player_number (game_state st) = 2"
      by simp
    with upd len show ?thesis
      by (simp add: score_sum_def opponent_def reported_score_none)
  qed
qed

theorem score_delta_is_reported_score_witness:
  "reported_score ''The score is 1'' = 1
   \<and> reported_score ''The sudoku has no solution'' = 0
   \<and> state_at example_board (scripted_agent [(0, 1, 3), (1, 0, 9)])
       (scripted_agent [(0, 1, 3), (1, 0, 9)])
       (scripted_oracle [''The score is 1'', ''The sudoku has no solution'']) (Suc 0)
     = Some \<lparr>game_state =
             \<lparr>initial_board = example_board, board = \<lparr>board_N = 2, squares = [1, 3, 0, 2]\<rparr>,
              taboo_moves = [], moves = [Move 0 1 3], scores = [1, 0]\<rparr>,
           move_number = 1\<rparr>
   \<and> score_sum \<lparr>initial_board = example_board, board = \<lparr>board_N = 2, squares = [1, 3, 0, 2]\<rparr>,
              taboo_moves = [], moves = [Move 0 1 3], scores = [1, 0]\<rparr> = 1
   \<and> state_at example_board (scripted_agent [(0, 1, 3), (1, 0, 9)])
       (scripted_agent [(0, 1, 3), (1, 0, 9)])
       (scripted_oracle [''The score is 1'', ''The sudoku has no solution'']) (Suc (Suc 0))
     = Some \<lparr>game_state =
             \<lparr>initial_board = example_board, board = \<lparr>board_N = 2, squares = [1, 3, 0, 2]\<rparr>,
              taboo_moves = [TabooMove 1 0 9], moves = [Move 0 1 3, TabooMove 1 0 9],
              scores = [1, 0]\<rparr>,
           move_number = 1\<rparr>
   \<and> score_sum \<lparr>initial_board = example_board, board = \<lparr>board_N = 2, squares = [1, 3, 0, 2]\<rparr>,
              taboo_moves = [TabooMove 1 0 9], moves = [Move 0 1 3, TabooMove 1 0 9],
              scores = [1, 0]\<rparr> = 1"
proof -
  let ?A = "scripted_agent [(0, 1, 3), (1, 0, 9)]"
  let ?O = "scripted_oracle [''The score is 1'', ''The sudoku has no solution'']"
  let ?g1 = "\<lparr>initial_board = example_board, board = \<lparr>board_N = 2, squares = [1, 3, 0, 2]\<rparr>,
              taboo_moves = [], moves = [Move 0 1 3], scores = [1, 0]\<rparr>"
  let ?g2 = "\<lparr>initial_board = example_board, board = \<lparr>board_N = 2, squares = [1, 3, 0, 2]\<rparr>,
              taboo_moves = [TabooMove 1 0 9], moves = [Move 0 1 3, TabooMove 1 0 9],
              scores = [1, 0]\<rparr>"
  have s0: "state_at example_board ?A ?A ?O 0 = Some (initial_state example_board)" by simp
  have s1: "state_at example_board ?A ?A ?O (Suc 0) = Some \<lparr>game_state = ?g1, move_number = 1\<rparr>"
    by (simp add: example_simps)
  have s2: "state_at example_board ?A ?A ?O (Suc (Suc 0))
      = Some \<lparr>game_state = ?g2, move_number = 1\<rparr>"
    by (simp add: example_simps)
  have o0: "oracle_output ?A ?A ?O 0 (game_state (initial_state example_board))
      = ''The score is 1''"
    by (simp add: example_simps)
  have o1: "oracle_output ?A ?A ?O (Suc 0) ?g1 = ''The sudoku has no solution''"
    by (simp add: example_simps)
  have r0: "reported_score ''The score is 1'' = 1"
    by (simp add: example_simps)
  have r1: "reported_score ''The sudoku has no solution'' = 0"
    using score_delta_is_reported_score[OF s1 s2] by (simp add: o1 sublist_code)
  have z: "score_sum (game_state (initial_state example_board)) = 0"
    by (simp add: example_simps)
  have "score_sum ?g1 = 1"
    using score_delta_is_reported_score[OF s0 s1] by (simp add: o0 r0 z)
  moreover from this have "score_sum ?g2 = 1"
    using score_delta_is_reported_score[OF s1 s2] by (simp add: o1 r1)
  ultimately show ?thesis
    using s1 s2 r0 r1 by (simp del: state_at.simps)
qed

subsection \<open>Both verdict branches\<close>

text \<open>
  Claim C9. The branches of lines 100 and 105 are not exclusive: when the oracle text of an
  iteration has \<open>has no solution\<close> and also a score line that \<open>int\<close> converts, the one
  iteration appends the move to \<open>taboo_moves\<close> once and to \<open>moves\<close> twice (as a taboo
  move and as a move), puts the value on the board, adds the points to the score of the
  active player and counts one scored move. The witness is such a text.
\<close>

theorem both_verdict_branches_run:
  assumes "state_at b player1 player2 orc k = Some st"
    and "move_number st < number_of_moves b"
    and "best_move player1 player2 k (game_state st) = (i, j, v)"
    and "(i, j, v) \<noteq> (0, 0, 0)"
    and "(i, j, v) \<notin> move_triple ` set (taboo_moves (game_state st))"
    and "\<not> sublist ''Invalid move'' (oracle_output player1 player2 orc k (game_state st))"
    and "\<not> sublist ''Illegal move'' (oracle_output player1 player2 orc k (game_state st))"
    and "sublist ''has no solution'' (oracle_output player1 player2 orc k (game_state st))"
    and "re_search_score (oracle_output player1 player2 orc k (game_state st)) = Some g"
    and "py_int g = Inr p"
    and "put (board (game_state st)) i j v = Inr b'"
  shows "sublist ''The score is'' (oracle_output player1 player2 orc k (game_state st))
       \<and> state_at b player1 player2 orc (Suc k) =
           Some \<lparr>game_state = (game_state st)
             \<lparr>board := b',
              moves := moves (game_state st) @ [TabooMove i j v, Move i j v],
              taboo_moves := taboo_moves (game_state st) @ [TabooMove i j v],
              scores := (scores (game_state st))
                 [player_number (game_state st) - 1 :=
                    scores (game_state st) ! (player_number (game_state st) - 1) + p]\<rparr>,
            move_number = move_number st + 1\<rparr>"
proof -
  have "snd (turn player1 player2 orc k st) =
      Continue \<lparr>game_state = (game_state st)
             \<lparr>board := b',
              moves := moves (game_state st) @ [TabooMove i j v, Move i j v],
              taboo_moves := taboo_moves (game_state st) @ [TabooMove i j v],
              scores := (scores (game_state st))
                 [player_number (game_state st) - 1 :=
                    scores (game_state st) ! (player_number (game_state st) - 1) + p]\<rparr>,
            move_number = move_number st + 1\<rparr>"
    using assms(3-5) apply_output_both[OF assms(6-11)]
    by (simp add: turn_oracle move_not_in_iff)
  with assms(1,2) re_search_score_sublist[OF assms(9)] show ?thesis
    by simp
qed

theorem both_verdict_branches_run_witness:
  "oracle_output (scripted_agent [(0, 1, 3)]) (scripted_agent [(0, 1, 3)])
     (scripted_oracle [''The sudoku has no solution. The score is 5'']) 0
     (game_state (initial_state example_board))
   = ''The sudoku has no solution. The score is 5''
   \<and> sublist ''has no solution'' ''The sudoku has no solution. The score is 5''
   \<and> sublist ''The score is'' ''The sudoku has no solution. The score is 5''
   \<and> state_at example_board (scripted_agent [(0, 1, 3)]) (scripted_agent [(0, 1, 3)])
     (scripted_oracle [''The sudoku has no solution. The score is 5'']) (Suc 0)
   = Some \<lparr>game_state =
             \<lparr>initial_board = example_board, board = \<lparr>board_N = 2, squares = [1, 3, 0, 2]\<rparr>,
              taboo_moves = [TabooMove 0 1 3], moves = [TabooMove 0 1 3, Move 0 1 3],
              scores = [5, 0]\<rparr>,
           move_number = 1\<rparr>"
proof -
  let ?A = "scripted_agent [(0, 1, 3)]"
  let ?O = "scripted_oracle [''The sudoku has no solution. The score is 5'']"
  let ?st = "initial_state example_board"
  have h1: "state_at example_board ?A ?A ?O 0 = Some ?st" by simp
  have h2: "move_number ?st < number_of_moves example_board"
    by (simp add: example_simps)
  have h3: "best_move ?A ?A 0 (game_state ?st) = (0, 1, 3)"
    by (simp add: example_simps)
  have h4: "(0, 1, 3) \<noteq> (0, 0, 0 :: int)" by simp
  have h5: "(0, 1, 3) \<notin> move_triple ` set (taboo_moves (game_state ?st))"
    by (simp add: example_simps)
  have out: "oracle_output ?A ?A ?O 0 (game_state ?st)
      = ''The sudoku has no solution. The score is 5''"
    by (simp add: example_simps)
  have h6: "\<not> sublist ''Invalid move'' (oracle_output ?A ?A ?O 0 (game_state ?st))"
    by (simp add: out sublist_code)
  have h7: "\<not> sublist ''Illegal move'' (oracle_output ?A ?A ?O 0 (game_state ?st))"
    by (simp add: out sublist_code)
  have h8: "sublist ''has no solution'' (oracle_output ?A ?A ?O 0 (game_state ?st))"
    by (simp add: out sublist_code)
  have h9: "re_search_score (oracle_output ?A ?A ?O 0 (game_state ?st)) = Some ''5''"
    by (simp add: out is_score_char_def is_digit_def)
  have h10: "py_int ''5'' = Inr 5"
    by (simp add: py_int_def is_digit_def digits_value_def)
  have h11: "put (board (game_state ?st)) 0 1 3 = Inr \<lparr>board_N = 2, squares = [1, 3, 0, 2]\<rparr>"
    by (simp add: example_simps)
  have phr: "sublist ''has no solution'' ''The sudoku has no solution. The score is 5''"
    by (simp add: sublist_code)
  from both_verdict_branches_run[OF h1 h2 h3 h4 h5 h6 h7 h8 h9 h10 h11] out phr show ?thesis
    by (simp add: initial_state_def player_number_def del: state_at.simps)
qed

end
